theory Spec2Isabelle
  imports Main
begin

section \<open>Values and library functions used by the handlers\<close>

text \<open>
  The server (\<^verbatim>\<open>cmd/sqlite-rest/main.go\<close>) reads rows through \<^verbatim>\<open>database/sql\<close> into
  destinations of type \<^verbatim>\<open>interface{}\<close>. \<open>goval\<close> lists the dynamic types the driver
  delivers there. A Go string is a byte sequence, as an Isabelle \<open>string\<close> is; a byte
  slice carries the same bytes under a different dynamic type. A float is kept as its 64
  bits: the handlers never compute with it.
\<close>

datatype goval =
    GNil
  | GInt int
  | GFloat nat
  | GBool bool
  | GString string
  | GBytes string
  | GTime int

text \<open>An \<^verbatim>\<open>error\<close> is represented by the text \<^verbatim>\<open>err.Error()\<close> returns.\<close>

type_synonym error = string

text \<open>
  \<^verbatim>\<open>url.Values\<close> is \<^verbatim>\<open>map[string][]string\<close>. It is listed here with one entry per key,
  in the order the \<^verbatim>\<open>range\<close> loop of the handler visits the keys (an order that Go
  leaves open); each key comes with its first value and the remaining ones, since the map
  built from a URL never holds an empty slice (so \<^verbatim>\<open>values[0]\<close> is the first component).
\<close>

type_synonym url_values = "(string \<times> string \<times> string list) list"

text \<open>\<^verbatim>\<open>c.Query(key)\<close> of gin: the first value of the key, or the empty string.\<close>

definition c_Query :: "url_values \<Rightarrow> string \<Rightarrow> string" where
  "c_Query q key = (case map_of q key of None \<Rightarrow> [] | Some (v0, _) \<Rightarrow> v0)"

subsection \<open>\<^verbatim>\<open>strconv.Atoi\<close> and \<^verbatim>\<open>%d\<close>\<close>

datatype num_error = ErrSyntax | ErrRange

definition is_digit :: "char \<Rightarrow> bool" where
  "is_digit c = (48 \<le> (of_char c :: int) \<and> (of_char c :: int) \<le> 57)"

definition digit_val :: "char \<Rightarrow> int" where
  "digit_val c = of_char c - 48"

text \<open>
  The digit loop of \<^verbatim>\<open>strconv.ParseUint\<close> in base 10 on 64 bits: a byte that is no
  digit is a syntax error, and a value beyond \<open>2^64 - 1\<close> is a range error, whichever
  comes first from the left.
\<close>

fun scan_digits :: "string \<Rightarrow> int \<Rightarrow> num_error + int" where
  "scan_digits [] n = Inr n"
| "scan_digits (c # cs) n =
     (if \<not> is_digit c then Inl ErrSyntax
      else if n * 10 + digit_val c > 2 ^ 64 - 1 then Inl ErrRange
      else scan_digits cs (n * 10 + digit_val c))"

text \<open>
  \<^verbatim>\<open>strconv.Atoi\<close> where \<^verbatim>\<open>int\<close> has 64 bits: an optional sign, then at least one
  decimal digit; the value must lie in \<open>[-2^63, 2^63 - 1]\<close>.
\<close>

definition Atoi :: "string \<Rightarrow> num_error + int" where
  "Atoi s =
     (case s of
        [] \<Rightarrow> Inl ErrSyntax
      | c # r \<Rightarrow>
          (let neg = (c = CHR ''-'');
               ds = (if c = CHR ''-'' \<or> c = CHR ''+'' then r else s)
           in if ds = [] then Inl ErrSyntax
              else (case scan_digits ds 0 of
                      Inl e \<Rightarrow> Inl e
                    | Inr un \<Rightarrow>
                        if \<not> neg \<and> un \<ge> 2 ^ 63 then Inl ErrRange
                        else if neg \<and> un > 2 ^ 63 then Inl ErrRange
                        else Inr (if neg then - un else un))))"

text \<open>The decimal digits of a number that is not negative.\<close>

function digits_of :: "int \<Rightarrow> string" where
  "digits_of n =
     (if n < 10 then [char_of (48 + n)]
      else digits_of (n div 10) @ [char_of (48 + n mod 10)])"
  by pat_completeness auto
termination
  by (relation "measure nat") auto

declare digits_of.simps [simp del]

text \<open>\<^verbatim>\<open>fmt.Sprintf("%d", n)\<close>.\<close>

definition itoa :: "int \<Rightarrow> string" where
  "itoa n = (if n < 0 then CHR ''-'' # digits_of (- n) else digits_of n)"

text \<open>\<^verbatim>\<open>strings.Join\<close>.\<close>

fun strings_Join :: "string list \<Rightarrow> string \<Rightarrow> string" where
  "strings_Join [] sep = []"
| "strings_Join [x] sep = x"
| "strings_Join (x # y # ys) sep = x @ sep @ strings_Join (y # ys) sep"

section \<open>The database handle\<close>

text \<open>
  \<^verbatim>\<open>*sql.Rows\<close> as the handlers see it: what \<^verbatim>\<open>Columns()\<close> returns, and what the
  successive \<^verbatim>\<open>Next()\<close>/\<^verbatim>\<open>Scan(...)\<close> pairs deliver (the values of a row, or the error
  of the scan) until \<^verbatim>\<open>Next()\<close> returns false. \<open>rows_Err\<close> is what \<^verbatim>\<open>rows.Err()\<close>
  would return afterwards.
\<close>

record sql_rows =
  rows_Columns :: "error + string list"
  rows_items :: "(error + goval list) list"
  rows_Err :: "error option"

text \<open>
  \<^verbatim>\<open>*sql.DB\<close>, an engine outside this repository, is a parameter of the model:
  \<open>db_Query\<close> is \<^verbatim>\<open>db.Query(query, args...)\<close> and \<open>db_QueryRow_Scan\<close> is
  \<^verbatim>\<open>db.QueryRow(query).Scan(&n)\<close> for an \<^verbatim>\<open>int\<close> destination.
\<close>

record sql_DB =
  db_Query :: "string \<Rightarrow> goval list \<Rightarrow> error + sql_rows"
  db_QueryRow_Scan :: "string \<Rightarrow> error + int"

text \<open>The calls a handler makes on the database handle, in order.\<close>

datatype db_call = QueryRow string | Query string "goval list"

text \<open>
  \<^verbatim>\<open>rows.Scan(valuePtrs...)\<close> with \<open>n\<close> destinations of type \<^verbatim>\<open>*interface{}\<close>: the
  scan fails when the row has another number of values, and stores every value as it is
  otherwise.
\<close>

definition rows_Scan :: "nat \<Rightarrow> error + goval list \<Rightarrow> error + goval list" where
  "rows_Scan n item =
     (case item of
        Inl err \<Rightarrow> Inl err
      | Inr vals \<Rightarrow>
          if length vals \<noteq> n
          then Inl (''sql: expected '' @ itoa (int (length vals))
                    @ '' destination arguments in Scan, not '' @ itoa (int n))
          else Inr vals)"

section \<open>Server state\<close>

record Config =
  DBPath :: string
  Port :: int
  Host :: string
  Mode :: string
  Username :: string
  Password :: string

record ColumnInfo =
  ci_Name :: string
  ci_Type :: string
  ci_NotNull :: bool
  ci_PrimaryKey :: bool

record TableInfo =
  ti_Name :: string
  ti_Columns :: "ColumnInfo list"

record APIServer =
  db :: sql_DB
  config :: Config
  tables :: "TableInfo list"

section \<open>Responses\<close>

text \<open>
  A decoded row is a \<^verbatim>\<open>map[string]interface{}\<close>, kept as an association list with one
  entry per key.
\<close>

type_synonym row = "(string \<times> goval) list"

text \<open>
  The body of a response. \<open>Plain\<close> is a text body, written by the router itself when no
  route matches; the others are the value handed to \<^verbatim>\<open>c.JSON\<close>:
  \<^item> \<open>H_error msg\<close> is \<^verbatim>\<open>gin.H{"error": msg}\<close>;
  \<^item> \<open>H_page total offset limit data\<close> is
    \<^verbatim>\<open>gin.H{"total": total, "offset": offset, "limit": limit, "data": results}\<close>, where
    \<open>None\<close> is the nil slice;
  \<^item> \<open>H_record r\<close> is the row map itself;
  \<^item> \<open>H_info ts es\<close> is \<^verbatim>\<open>gin.H{"tables": ts, "endpoints": es}\<close>.
\<close>

datatype body =
    Plain string
  | H_error string
  | H_page int int int "row list option"
  | H_record row
  | H_info "TableInfo list" "string list"

datatype response = Response nat body

definition StatusOK :: nat where "StatusOK = 200"
definition StatusUnauthorized :: nat where "StatusUnauthorized = 401"
definition StatusNotFound :: nat where "StatusNotFound = 404"
definition StatusInternalServerError :: nat where "StatusInternalServerError = 500"

section \<open>Row decoding\<close>

text \<open>
  The conversion both handlers apply to a scanned value:
  \<^verbatim>\<open>if b, ok := val.([]byte); ok { row[col] = string(b) } else { row[col] = val }\<close>.
\<close>

fun decodeValue :: "goval \<Rightarrow> goval" where
  "decodeValue (GBytes b) = GString b"
| "decodeValue val = val"

text \<open>Assignment \<^verbatim>\<open>m[key] = val\<close> to a Go map.\<close>

fun map_assign :: "row \<Rightarrow> string \<Rightarrow> goval \<Rightarrow> row" where
  "map_assign [] key val = [(key, val)]"
| "map_assign ((k, v) # m) key val =
     (if k = key then (k, val) # m else (k, v) # map_assign m key val)"

text \<open>
  The loop \<^verbatim>\<open>for i, col := range columns\<close> over the scanned \<^verbatim>\<open>values\<close>, which has
  one entry per column.
\<close>

fun decodeLoop :: "string list \<Rightarrow> goval list \<Rightarrow> row \<Rightarrow> row" where
  "decodeLoop (col # columns) (val # values) r =
     decodeLoop columns values (map_assign r col (decodeValue val))"
| "decodeLoop columns values r = r"

definition decodeRow :: "string list \<Rightarrow> goval list \<Rightarrow> row" where
  "decodeRow columns values = decodeLoop columns values []"

text \<open>\<^verbatim>\<open>append(results, row)\<close> on a slice that starts out nil (\<open>None\<close>).\<close>

fun append_slice :: "'a list option \<Rightarrow> 'a \<Rightarrow> 'a list option" where
  "append_slice None x = Some [x]"
| "append_slice (Some xs) x = Some (xs @ [x])"

text \<open>The loop \<^verbatim>\<open>for rows.Next()\<close> of the list handler; a failing scan ends it.\<close>

fun scanLoop :: "string list \<Rightarrow> (error + goval list) list \<Rightarrow> row list option
    \<Rightarrow> error + row list option" where
  "scanLoop columns [] results = Inr results"
| "scanLoop columns (item # items) results =
     (case rows_Scan (length columns) item of
        Inl err \<Rightarrow> Inl err
      | Inr values \<Rightarrow> scanLoop columns items (append_slice results (decodeRow columns values)))"

section \<open>The list handler\<close>

text \<open>Lines 239 to 250 of \<^verbatim>\<open>handleTableQuery\<close>: pagination parameters with defaults.\<close>

definition pageLimit :: "url_values \<Rightarrow> int" where
  "pageLimit q =
     (let limitStr = c_Query q ''limit''
      in if limitStr \<noteq> []
         then (case Atoi limitStr of Inr l \<Rightarrow> if l > 0 then l else 100 | Inl err \<Rightarrow> 100)
         else 100)"

definition pageOffset :: "url_values \<Rightarrow> int" where
  "pageOffset q =
     (let offsetStr = c_Query q ''offset''
      in if offsetStr \<noteq> []
         then (case Atoi offsetStr of Inr o' \<Rightarrow> if o' \<ge> 0 then o' else 0 | Inl err \<Rightarrow> 0)
         else 0)"

text \<open>
  The filter loop over \<^verbatim>\<open>c.Request.URL.Query()\<close>, carrying \<^verbatim>\<open>whereConditions\<close> and
  \<^verbatim>\<open>params\<close>.
\<close>

fun filterLoop :: "url_values \<Rightarrow> string list \<times> goval list \<Rightarrow> string list \<times> goval list" where
  "filterLoop [] acc = acc"
| "filterLoop ((key, values) # rest) (whereConditions, params) =
     (if key \<noteq> ''limit'' \<and> key \<noteq> ''offset'' \<and> key \<noteq> ''order''
      then filterLoop rest (whereConditions @ [key @ '' = ?''], params @ [GString (fst values)])
      else filterLoop rest (whereConditions, params))"

text \<open>The text of the paginated query and its arguments.\<close>

definition listQuery :: "string \<Rightarrow> url_values \<Rightarrow> string \<times> goval list" where
  "listQuery tableName q =
     (let query = ''SELECT * FROM '' @ tableName;
          (whereConditions, params) = filterLoop q ([], []);
          query = (if length whereConditions > 0
                   then query @ '' WHERE '' @ strings_Join whereConditions '' AND ''
                   else query);
          order = c_Query q ''order'';
          query = (if order \<noteq> [] then query @ '' ORDER BY '' @ order else query);
          query = query @ '' LIMIT '' @ itoa (pageLimit q) @ '' OFFSET '' @ itoa (pageOffset q)
      in (query, params))"

definition countQuery :: "string \<Rightarrow> string" where
  "countQuery tableName = ''SELECT COUNT(*) FROM '' @ tableName"

text \<open>
  \<^verbatim>\<open>handleTableQuery(tableName)\<close> applied to a request with the query values \<open>q\<close>: the
  calls made on the database handle and the response written.
\<close>

definition handleTableQuery :: "APIServer \<Rightarrow> string \<Rightarrow> url_values \<Rightarrow> db_call list \<times> response" where
  "handleTableQuery s tableName q =
     (let limit = pageLimit q;
          offset = pageOffset q
      in case db_QueryRow_Scan (db s) (countQuery tableName) of
           Inl err \<Rightarrow>
             ([QueryRow (countQuery tableName)],
              Response StatusInternalServerError (H_error err))
         | Inr total' \<Rightarrow>
             (let (query, params) = listQuery tableName q;
                  calls = [QueryRow (countQuery tableName), Query query params]
              in case db_Query (db s) query params of
                   Inl err \<Rightarrow> (calls, Response StatusInternalServerError (H_error err))
                 | Inr rows \<Rightarrow>
                     (case rows_Columns rows of
                        Inl err \<Rightarrow> (calls, Response StatusInternalServerError (H_error err))
                      | Inr columns \<Rightarrow>
                          (case scanLoop columns (rows_items rows) None of
                             Inl err \<Rightarrow>
                               (calls, Response StatusInternalServerError (H_error err))
                           | Inr results \<Rightarrow>
                               (calls, Response StatusOK (H_page total' offset limit results))))))"

section \<open>The single-record handler\<close>

definition recordQuery :: "string \<Rightarrow> string" where
  "recordQuery tableName = ''SELECT * FROM '' @ tableName @ '' WHERE id = ?''"

text \<open>\<^verbatim>\<open>handleRecordQuery(tableName)\<close> with \<open>id\<close> the value of \<^verbatim>\<open>c.Param("id")\<close>.\<close>

definition handleRecordQuery :: "APIServer \<Rightarrow> string \<Rightarrow> string \<Rightarrow> db_call list \<times> response" where
  "handleRecordQuery s tableName id' =
     (let query = recordQuery tableName;
          calls = [Query query [GString id']]
      in case db_Query (db s) query [GString id'] of
           Inl err \<Rightarrow> (calls, Response StatusInternalServerError (H_error err))
         | Inr rows \<Rightarrow>
             (case rows_Columns rows of
                Inl err \<Rightarrow> (calls, Response StatusInternalServerError (H_error err))
              | Inr columns \<Rightarrow>
                  (case rows_items rows of
                     [] \<Rightarrow> (calls, Response StatusNotFound (H_error ''Record not found''))
                   | item # items \<Rightarrow>
                       (case rows_Scan (length columns) item of
                          Inl err \<Rightarrow>
                            (calls, Response StatusInternalServerError (H_error err))
                        | Inr values \<Rightarrow>
                            (calls, Response StatusOK (H_record (decodeRow columns values)))))))"

section \<open>The info handler\<close>

text \<open>The loop of \<^verbatim>\<open>handleAPIInfo\<close> that appends two strings per table.\<close>

fun endpointsLoop :: "TableInfo list \<Rightarrow> string list \<Rightarrow> string list" where
  "endpointsLoop [] endpoints = endpoints"
| "endpointsLoop (table # rest) endpoints =
     endpointsLoop rest
       (endpoints @ [''GET /'' @ ti_Name table, ''GET /'' @ ti_Name table @ ''/:id''])"

definition handleAPIInfo :: "APIServer \<Rightarrow> db_call list \<times> response" where
  "handleAPIInfo s = ([], Response StatusOK (H_info (tables s) (endpointsLoop (tables s) [])))"

section \<open>Loading the catalog\<close>

definition masterQuery :: string where
  "masterQuery =
     [CHR 0x0A, CHR 0x09, CHR 0x09] @ ''SELECT name FROM sqlite_master''
     @ [CHR 0x0A, CHR 0x09, CHR 0x09] @ ''WHERE type='' @ [CHR 0x27] @ ''table'' @ [CHR 0x27]
     @ '' AND name NOT LIKE '' @ [CHR 0x27] @ ''sqlite_%'' @ [CHR 0x27]
     @ [CHR 0x0A, CHR 0x09]"

text \<open>
  \<^verbatim>\<open>rows.Scan\<close> into a \<^verbatim>\<open>*string\<close> and into an \<^verbatim>\<open>*int\<close>, as \<^verbatim>\<open>database/sql\<close>
  converts the values that the two catalog queries deliver (text and integers, or NULL).
  The formatting of floats and times is not covered and is given as an error.
\<close>

fun scan_string :: "goval \<Rightarrow> error + string" where
  "scan_string (GString s) = Inr s"
| "scan_string (GBytes b) = Inr b"
| "scan_string (GInt n) = Inr (itoa n)"
| "scan_string (GBool b) = Inr (if b then ''true'' else ''false'')"
| "scan_string GNil = Inl ''converting NULL to string is unsupported''"
| "scan_string v = Inl ''conversion not covered''"

definition parse_int_text :: "string \<Rightarrow> error + int" where
  "parse_int_text s =
     (case Atoi s of
        Inr n \<Rightarrow> Inr n
      | Inl e \<Rightarrow> Inl (''converting driver.Value type string to a int: ''
                      @ (if e = ErrSyntax then ''invalid syntax'' else ''value out of range'')))"

fun scan_int :: "goval \<Rightarrow> error + int" where
  "scan_int (GInt n) = Inr n"
| "scan_int (GString s) = parse_int_text s"
| "scan_int (GBytes b) = parse_int_text b"
| "scan_int GNil = Inl ''converting NULL to int is unsupported''"
| "scan_int v = Inl ''conversion not covered''"

text \<open>\<^verbatim>\<open>rows.Scan(&tableName)\<close>.\<close>

definition scanTableName :: "error + goval list \<Rightarrow> error + string" where
  "scanTableName item =
     (case item of
        Inl err \<Rightarrow> Inl err
      | Inr vals \<Rightarrow>
          (case vals of
             [v] \<Rightarrow> scan_string v
           | _ \<Rightarrow> Inl (''sql: expected '' @ itoa (int (length vals))
                        @ '' destination arguments in Scan, not 1'')))"

text \<open>
  \<^verbatim>\<open>pragmaRows.Scan(&cid, &name, &type_, &notNull, &dfltValue, &pk)\<close> followed by the
  construction of the \<^verbatim>\<open>ColumnInfo\<close>; the destinations are filled from left to right and
  the first failing conversion is the error.
\<close>

definition scanColumn :: "error + goval list \<Rightarrow> error + ColumnInfo" where
  "scanColumn item =
     (case item of
        Inl err \<Rightarrow> Inl err
      | Inr vals \<Rightarrow>
          (case vals of
             [v0, v1, v2, v3, v4, v5] \<Rightarrow>
               (case scan_int v0 of Inl err \<Rightarrow> Inl err | Inr cid \<Rightarrow>
               (case scan_string v1 of Inl err \<Rightarrow> Inl err | Inr name \<Rightarrow>
               (case scan_string v2 of Inl err \<Rightarrow> Inl err | Inr type' \<Rightarrow>
               (case scan_int v3 of Inl err \<Rightarrow> Inl err | Inr notNull \<Rightarrow>
               (case scan_int v5 of Inl err \<Rightarrow> Inl err | Inr pk \<Rightarrow>
                  Inr \<lparr>ci_Name = name, ci_Type = type', ci_NotNull = (notNull = 1),
                       ci_PrimaryKey = (pk = 1)\<rparr>)))))
           | _ \<Rightarrow> Inl (''sql: expected '' @ itoa (int (length vals))
                        @ '' destination arguments in Scan, not 6'')))"

fun columnsLoop :: "(error + goval list) list \<Rightarrow> ColumnInfo list \<Rightarrow> error + ColumnInfo list" where
  "columnsLoop [] columns = Inr columns"
| "columnsLoop (item # items) columns =
     (case scanColumn item of
        Inl err \<Rightarrow> Inl err
      | Inr column \<Rightarrow> columnsLoop items (columns @ [column]))"

text \<open>The outer loop of \<^verbatim>\<open>loadTableInfo\<close>, carrying \<^verbatim>\<open>s.tables\<close>.\<close>

fun tablesLoop :: "sql_DB \<Rightarrow> (error + goval list) list \<Rightarrow> TableInfo list
    \<Rightarrow> error + TableInfo list" where
  "tablesLoop d [] ts = Inr ts"
| "tablesLoop d (item # items) ts =
     (case scanTableName item of
        Inl err \<Rightarrow> Inl err
      | Inr tableName \<Rightarrow>
          (case db_Query d (''PRAGMA table_info('' @ tableName @ '')'') [] of
             Inl err \<Rightarrow> Inl err
           | Inr pragmaRows \<Rightarrow>
               (case columnsLoop (rows_items pragmaRows) [] of
                  Inl err \<Rightarrow> Inl err
                | Inr columns \<Rightarrow>
                    tablesLoop d items (ts @ [\<lparr>ti_Name = tableName, ti_Columns = columns\<rparr>]))))"

definition loadTableInfo :: "APIServer \<Rightarrow> error + APIServer" where
  "loadTableInfo s =
     (case db_Query (db s) masterQuery [] of
        Inl err \<Rightarrow> Inl err
      | Inr rows \<Rightarrow>
          (case tablesLoop (db s) (rows_items rows) (tables s) of
             Inl err \<Rightarrow> Inl err
           | Inr ts \<Rightarrow> Inr (s\<lparr>tables := ts\<rparr>)))"

text \<open>
  \<^verbatim>\<open>NewAPIServer\<close> from the point where the handle is open and configured: the server
  value is built with no tables and the catalog is loaded into it.
\<close>

definition NewAPIServer :: "Config \<Rightarrow> sql_DB \<Rightarrow> error + APIServer" where
  "NewAPIServer cfg d =
     (case loadTableInfo \<lparr>db = d, config = cfg, tables = []\<rparr> of
        Inl err \<Rightarrow> Inl (''failed to load table info: '' @ err)
      | Inr server \<Rightarrow> Inr server)"

section \<open>Serving requests\<close>

text \<open>
  \<^verbatim>\<open>authMiddleware\<close>: \<open>None\<close> stands for \<^verbatim>\<open>c.Next()\<close>, a response for the abort. The
  argument is the result of \<^verbatim>\<open>c.Request.BasicAuth()\<close>.
\<close>

definition authMiddleware :: "APIServer \<Rightarrow> (string \<times> string) option \<Rightarrow> response option" where
  "authMiddleware s basicAuth =
     (if Username (config s) = [] \<and> Password (config s) = [] then None
      else (case basicAuth of
              None \<Rightarrow> Some (Response StatusUnauthorized (H_error ''Unauthorized''))
            | Some (username, password) \<Rightarrow>
                if username \<noteq> Username (config s) \<or> password \<noteq> Password (config s)
                then Some (Response StatusUnauthorized (H_error ''Unauthorized''))
                else None))"

text \<open>
  The routes of \<^verbatim>\<open>setupRoutes\<close>: \<^verbatim>\<open>/\<close>, and \<^verbatim>\<open>/<table>\<close> and \<^verbatim>\<open>/<table>/:id\<close> for
  every table of the catalog. A request is given with its path already split.
\<close>

datatype path = Root | TablePath string | RecordPath string string

record request =
  req_path :: path
  req_query :: url_values
  req_auth :: "(string \<times> string) option"

definition routed :: "APIServer \<Rightarrow> string \<Rightarrow> bool" where
  "routed s name = (name \<in> set (map ti_Name (tables s)))"

text \<open>
  One request: the server value after it, the calls made on the database handle, and the
  response. No handler assigns to a field of the server.
\<close>

definition serve :: "APIServer \<Rightarrow> request \<Rightarrow> APIServer \<times> db_call list \<times> response" where
  "serve s r =
     (case authMiddleware s (req_auth r) of
        Some resp \<Rightarrow> (s, [], resp)
      | None \<Rightarrow>
          (case req_path r of
             Root \<Rightarrow> (s, handleAPIInfo s)
           | TablePath name \<Rightarrow>
               if routed s name then (s, handleTableQuery s name (req_query r))
               else (s, [], Response StatusNotFound (Plain ''404 page not found''))
           | RecordPath name id' \<Rightarrow>
               if routed s name then (s, handleRecordQuery s name id')
               else (s, [], Response StatusNotFound (Plain ''404 page not found''))))"

fun serveAll :: "APIServer \<Rightarrow> request list \<Rightarrow> APIServer" where
  "serveAll s [] = s"
| "serveAll s (r # rs) = serveAll (fst (serve s r)) rs"

section \<open>JSON rendering\<close>

text \<open>
  What \<^verbatim>\<open>encoding/json\<close> makes of a value: only the kind of JSON value is kept. A byte
  slice would be rendered as a string too (in base 64), a time as a string.
\<close>

datatype json_kind = JNull | JBool | JNumber | JString | JArray | JObject

fun json_of_value :: "goval \<Rightarrow> json_kind" where
  "json_of_value GNil = JNull"
| "json_of_value (GInt n) = JNumber"
| "json_of_value (GFloat f) = JNumber"
| "json_of_value (GBool b) = JBool"
| "json_of_value (GString s) = JString"
| "json_of_value (GBytes b) = JString"
| "json_of_value (GTime t) = JString"

text \<open>A slice is rendered as \<^verbatim>\<open>null\<close> when it is nil and as an array otherwise.\<close>

fun json_of_slice :: "'a list option \<Rightarrow> json_kind" where
  "json_of_slice None = JNull"
| "json_of_slice (Some xs) = JArray"

text \<open>The members of the JSON object written for a body (none for a text body).\<close>

fun json_members :: "body \<Rightarrow> (string \<times> json_kind) list" where
  "json_members (Plain t) = []"
| "json_members (H_error msg) = [(''error'', JString)]"
| "json_members (H_page total' offset limit results) =
     [(''data'', json_of_slice results), (''limit'', JNumber), (''offset'', JNumber),
      (''total'', JNumber)]"
| "json_members (H_record r) = map (\<lambda>(col, val). (col, json_of_value val)) r"
| "json_members (H_info ts endpoints) =
     [(''endpoints'', JArray), (''tables'', if ts = [] then JNull else JArray)]"

section \<open>A database engine for the statements of the server\<close>

text \<open>
  The engine behind \<^verbatim>\<open>*sql.DB\<close> is SQLite, reached through the driver
  \<^verbatim>\<open>go-sqlite3\<close>. \<open>sqlite3\<close> below is an instance of the handle for a database given by
  its schema and rows. It covers the statement forms that the server writes, with the
  keywords in upper case as the server writes them, over tables that hold NULL, INTEGER,
  TEXT and BLOB values (no REAL). Names of tables and columns are taken to be single words
  that are no SQL keywords; they are resolved without regard to case, and there is no
  \<^verbatim>\<open>rowid\<close> alias. Any other statement is answered with an error, also where SQLite
  would accept it.
\<close>

datatype sqlval = SNull | SInteger int | SText string | SBlob string

record sq_column =
  col_name :: string
  col_type :: string
  col_notnull :: bool
  col_dflt :: sqlval
  col_pk :: nat

record sq_object =
  obj_type :: string
  obj_name :: string
  obj_columns :: "sq_column list"
  obj_rows :: "sqlval list list"

type_synonym database = "sq_object list"

text \<open>The values the driver hands to \<^verbatim>\<open>database/sql\<close>, and the binding of an argument.\<close>

fun driver_value :: "sqlval \<Rightarrow> goval" where
  "driver_value SNull = GNil"
| "driver_value (SInteger n) = GInt n"
| "driver_value (SText t) = GString t"
| "driver_value (SBlob b) = GBytes b"

fun bind_value :: "goval \<Rightarrow> sqlval option" where
  "bind_value GNil = Some SNull"
| "bind_value (GInt n) = Some (SInteger n)"
| "bind_value (GBool b) = Some (SInteger (if b then 1 else 0))"
| "bind_value (GString t) = Some (SText t)"
| "bind_value (GBytes b) = Some (SBlob b)"
| "bind_value v = None"

subsection \<open>Words of a statement\<close>

definition is_space :: "char \<Rightarrow> bool" where
  "is_space c = (c = CHR '' '' \<or> c = CHR 0x09 \<or> c = CHR 0x0A \<or> c = CHR 0x0D)"

fun split_space :: "string \<Rightarrow> string list" where
  "split_space [] = [[]]"
| "split_space (c # cs) =
     (if is_space c then [] # split_space cs
      else (case split_space cs of [] \<Rightarrow> [[c]] | w # ws \<Rightarrow> (c # w) # ws))"

definition sql_words :: "string \<Rightarrow> string list" where
  "sql_words t = filter (\<lambda>w. w \<noteq> []) (split_space t)"

definition to_lower :: "char \<Rightarrow> char" where
  "to_lower c =
     (if 65 \<le> (of_char c :: int) \<and> (of_char c :: int) \<le> 90
      then char_of ((of_char c :: int) + 32) else c)"

definition same_name :: "string \<Rightarrow> string \<Rightarrow> bool" where
  "same_name a b = (map to_lower a = map to_lower b)"

fun strip_prefix :: "string \<Rightarrow> string \<Rightarrow> string option" where
  "strip_prefix [] t = Some t"
| "strip_prefix (c # cs) [] = None"
| "strip_prefix (c # cs) (d # ds) = (if c = d then strip_prefix cs ds else None)"

definition strip_suffix :: "string \<Rightarrow> string \<Rightarrow> string option" where
  "strip_suffix suf t = map_option rev (strip_prefix (rev suf) (rev t))"

subsection \<open>LIKE, comparison and order\<close>

text \<open>
  \<^verbatim>\<open>LIKE\<close>: \<^verbatim>\<open>%\<close> matches any sequence of characters, \<^verbatim>\<open>_\<close> matches any single
  character, and any other character matches itself without regard to the case of ASCII
  letters.
\<close>

fun like_match :: "string \<Rightarrow> string \<Rightarrow> bool" where
  "like_match [] t = (t = [])"
| "like_match (p # ps) [] = (p = CHR ''%'' \<and> like_match ps [])"
| "like_match (p # ps) (c # cs) =
     (if p = CHR ''%'' then like_match ps (c # cs) \<or> like_match (p # ps) cs
      else (p = CHR ''_'' \<or> to_lower p = to_lower c) \<and> like_match ps cs)"

fun has_infix :: "string \<Rightarrow> string \<Rightarrow> bool" where
  "has_infix p [] = (p = [])"
| "has_infix p (c # cs) = (strip_prefix p (c # cs) \<noteq> None \<or> has_infix p cs)"

text \<open>The affinity of a column, from its declared type.\<close>

datatype affinity = AffInteger | AffText | AffBlob | AffReal | AffNumeric

definition affinity_of :: "string \<Rightarrow> affinity" where
  "affinity_of decl =
     (let d = map to_lower decl
      in if has_infix ''int'' d then AffInteger
         else if has_infix ''char'' d \<or> has_infix ''clob'' d \<or> has_infix ''text'' d then AffText
         else if has_infix ''blob'' d \<or> d = [] then AffBlob
         else if has_infix ''real'' d \<or> has_infix ''floa'' d \<or> has_infix ''doub'' d then AffReal
         else AffNumeric)"

text \<open>
  \<^verbatim>\<open>column = ?\<close>: the bound value has no affinity, so the affinity of the column is
  applied to it before the comparison. A text that is an integer literal becomes that
  integer under a numeric affinity (texts that denote reals are not covered and stay
  texts); an integer becomes its decimal text under the text affinity. NULL equals
  nothing.
\<close>

definition apply_affinity :: "affinity \<Rightarrow> sqlval \<Rightarrow> sqlval" where
  "apply_affinity a v =
     (case (a, v) of
        (AffText, SInteger n) \<Rightarrow> SText (itoa n)
      | (AffText, _) \<Rightarrow> v
      | (AffBlob, _) \<Rightarrow> v
      | (_, SText t) \<Rightarrow> (case Atoi t of Inr n \<Rightarrow> SInteger n | Inl e \<Rightarrow> v)
      | (_, _) \<Rightarrow> v)"

definition sql_equal :: "affinity \<Rightarrow> sqlval \<Rightarrow> sqlval \<Rightarrow> bool" where
  "sql_equal a stored bound =
     (stored \<noteq> SNull \<and> bound \<noteq> SNull \<and> stored = apply_affinity a bound)"

text \<open>
  The order of \<^verbatim>\<open>ORDER BY\<close>: NULL first, then integers by value, then texts and then
  blobs, each compared byte by byte.
\<close>

fun bytes_le :: "string \<Rightarrow> string \<Rightarrow> bool" where
  "bytes_le [] t = True"
| "bytes_le (c # cs) [] = False"
| "bytes_le (c # cs) (d # ds) =
     ((of_char c :: int) < of_char d \<or> (c = d \<and> bytes_le cs ds))"

fun sql_le :: "sqlval \<Rightarrow> sqlval \<Rightarrow> bool" where
  "sql_le SNull v = True"
| "sql_le (SInteger a) SNull = False"
| "sql_le (SInteger a) (SInteger b) = (a \<le> b)"
| "sql_le (SInteger a) v = True"
| "sql_le (SText a) (SText b) = bytes_le a b"
| "sql_le (SText a) (SBlob b) = True"
| "sql_le (SText a) v = False"
| "sql_le (SBlob a) (SBlob b) = bytes_le a b"
| "sql_le (SBlob a) v = False"

text \<open>The value of a row in column \<open>i\<close>.\<close>

definition cell :: "sqlval list \<Rightarrow> nat \<Rightarrow> sqlval" where
  "cell r i = (if i < length r then r ! i else SNull)"

fun insert_row :: "nat \<Rightarrow> sqlval list \<Rightarrow> sqlval list list \<Rightarrow> sqlval list list" where
  "insert_row i r [] = [r]"
| "insert_row i r (x # xs) =
     (if sql_le (cell r i) (cell x i) then r # x # xs else x # insert_row i r xs)"

definition sort_rows :: "nat \<Rightarrow> sqlval list list \<Rightarrow> sqlval list list" where
  "sort_rows i rs = foldr (insert_row i) rs []"

subsection \<open>Statements\<close>

definition find_table :: "database \<Rightarrow> string \<Rightarrow> sq_object option" where
  "find_table d t = find (\<lambda>ob. obj_type ob = ''table'' \<and> same_name (obj_name ob) t) d"

fun find_column :: "string \<Rightarrow> sq_column list \<Rightarrow> (nat \<times> sq_column) option" where
  "find_column k [] = None"
| "find_column k (c # cs) =
     (if same_name k (col_name c) then Some (0, c)
      else map_option (\<lambda>(i, c'). (Suc i, c')) (find_column k cs))"

fun find_columns :: "string list \<Rightarrow> sq_column list \<Rightarrow> error + (nat \<times> sq_column) list" where
  "find_columns [] cols = Inr []"
| "find_columns (k # ks) cols =
     (case find_column k cols of
        None \<Rightarrow> Inl (''no such column: '' @ k)
      | Some ic \<Rightarrow>
          (case find_columns ks cols of Inl err \<Rightarrow> Inl err | Inr ics \<Rightarrow> Inr (ic # ics)))"

fun bind_values :: "goval list \<Rightarrow> sqlval list option" where
  "bind_values [] = Some []"
| "bind_values (a # as) =
     (case bind_value a of
        None \<Rightarrow> None
      | Some v \<Rightarrow> map_option (\<lambda>vs. v # vs) (bind_values as))"

text \<open>The result set of a statement over the given columns.\<close>

definition result_set :: "string list \<Rightarrow> sqlval list list \<Rightarrow> sql_rows" where
  "result_set names rs =
     \<lparr>rows_Columns = Inr names,
      rows_items = map (\<lambda>r. Inr (map (\<lambda>i. driver_value (cell r i)) [0..<length names])) rs,
      rows_Err = None\<rparr>"

text \<open>
  \<^verbatim>\<open>AND column = ? ...\<close>: the columns of the conditions that follow the first one, and
  the words left.
\<close>

fun parse_conds :: "string list \<Rightarrow> string list \<times> string list" where
  "parse_conds (a # k # e # p # r) =
     (if a = ''AND'' \<and> e = ''='' \<and> p = ''?''
      then (case parse_conds r of (ks, r') \<Rightarrow> (k # ks, r'))
      else ([], a # k # e # p # r))"
| "parse_conds ts = ([], ts)"

definition parse_where :: "string list \<Rightarrow> string list \<times> string list" where
  "parse_where ts =
     (case ts of
        w # k # e # p # r \<Rightarrow>
          if w = ''WHERE'' \<and> e = ''='' \<and> p = ''?''
          then (case parse_conds r of (ks, r') \<Rightarrow> (k # ks, r'))
          else ([], ts)
      | _ \<Rightarrow> ([], ts))"

definition parse_order :: "string list \<Rightarrow> string option \<times> string list" where
  "parse_order ts =
     (case ts of
        ob # b # c # r \<Rightarrow> if ob = ''ORDER'' \<and> b = ''BY'' then (Some c, r) else (None, ts)
      | _ \<Rightarrow> (None, ts))"

definition parse_limit :: "string list \<Rightarrow> (int \<times> int) option" where
  "parse_limit ts =
     (case ts of
        [] \<Rightarrow> Some (- 1, 0)
      | [l, n, ofs, m] \<Rightarrow>
          if l = ''LIMIT'' \<and> ofs = ''OFFSET''
          then (case Atoi n of
                  Inl e \<Rightarrow> None
                | Inr n' \<Rightarrow> (case Atoi m of Inl e \<Rightarrow> None | Inr m' \<Rightarrow> Some (n', m')))
          else None
      | _ \<Rightarrow> None)"

text \<open>
  \<^verbatim>\<open>LIMIT n OFFSET m\<close>: a negative limit is no limit, a negative offset is 0; a
  statement with no such clause has no limit.
\<close>

definition limit_offset :: "int \<Rightarrow> int \<Rightarrow> 'a list \<Rightarrow> 'a list" where
  "limit_offset n m rs =
     (let rs' = drop (nat m) rs in if n < 0 then rs' else take (nat n) rs')"

definition row_matches :: "(nat \<times> sq_column) list \<Rightarrow> sqlval list \<Rightarrow> sqlval list \<Rightarrow> bool" where
  "row_matches ics args r =
     list_all (\<lambda>((i, c), a). sql_equal (affinity_of (col_type c)) (cell r i) a) (zip ics args)"

text \<open>
  \<^verbatim>\<open>SELECT * FROM t [WHERE c = ? AND ...] [ORDER BY c] [LIMIT n OFFSET m]\<close>, given by
  the words after \<^verbatim>\<open>FROM\<close>.
\<close>

definition run_select :: "database \<Rightarrow> string list \<Rightarrow> sqlval list \<Rightarrow> error + sql_rows" where
  "run_select d ts args =
     (case ts of
        [] \<Rightarrow> Inl ''incomplete input''
      | t # ts1 \<Rightarrow>
          (case parse_where ts1 of (ks, ts2) \<Rightarrow>
          (case parse_order ts2 of (ord, ts3) \<Rightarrow>
          (case parse_limit ts3 of
             None \<Rightarrow> Inl ''syntax error''
           | Some (n, m) \<Rightarrow>
               (case find_table d t of
                  None \<Rightarrow> Inl (''no such table: '' @ t)
                | Some tbl \<Rightarrow>
                    (case find_columns ks (obj_columns tbl) of
                       Inl err \<Rightarrow> Inl err
                     | Inr ics \<Rightarrow>
                         if length args \<noteq> length ics then Inl ''wrong number of arguments''
                         else
                           (let matching = filter (row_matches ics args) (obj_rows tbl);
                                names = map col_name (obj_columns tbl)
                            in case ord of
                                 None \<Rightarrow> Inr (result_set names (limit_offset n m matching))
                               | Some c \<Rightarrow>
                                   (case find_column c (obj_columns tbl) of
                                      None \<Rightarrow> Inl (''no such column: '' @ c)
                                    | Some (i, c') \<Rightarrow>
                                        Inr (result_set names
                                               (limit_offset n m (sort_rows i matching)))))))))))"

text \<open>\<^verbatim>\<open>SELECT COUNT(*) FROM t\<close>, given by the words after \<^verbatim>\<open>FROM\<close>.\<close>

definition run_count :: "database \<Rightarrow> string list \<Rightarrow> error + sql_rows" where
  "run_count d ts =
     (case ts of
        [t] \<Rightarrow>
          (case find_table d t of
             None \<Rightarrow> Inl (''no such table: '' @ t)
           | Some tbl \<Rightarrow> Inr (result_set [''COUNT(*)''] [[SInteger (int (length (obj_rows tbl)))]]))
      | _ \<Rightarrow> Inl ''syntax error'')"

text \<open>
  \<^verbatim>\<open>SELECT name FROM sqlite_master WHERE type='table' AND name NOT LIKE '<pattern>'\<close>,
  given by its last word.
\<close>

definition master_words :: "string list" where
  "master_words =
     [''SELECT'', ''name'', ''FROM'', ''sqlite_master'', ''WHERE'',
      ''type='' @ [CHR 0x27] @ ''table'' @ [CHR 0x27], ''AND'', ''name'', ''NOT'', ''LIKE'']"

definition run_master :: "database \<Rightarrow> string list \<Rightarrow> error + sql_rows" where
  "run_master d ts =
     (case ts of
        [quoted] \<Rightarrow>
          (case strip_prefix [CHR 0x27] quoted of
             None \<Rightarrow> Inl ''syntax error''
           | Some rest \<Rightarrow>
               (case strip_suffix [CHR 0x27] rest of
                  None \<Rightarrow> Inl ''syntax error''
                | Some pattern \<Rightarrow>
                    Inr (result_set [''name'']
                           (map (\<lambda>ob. [SText (obj_name ob)])
                              (filter (\<lambda>ob. obj_type ob = ''table''
                                           \<and> \<not> like_match pattern (obj_name ob)) d)))))
      | _ \<Rightarrow> Inl ''syntax error'')"

text \<open>
  \<^verbatim>\<open>PRAGMA table_info(t)\<close>, given by the word after \<^verbatim>\<open>PRAGMA\<close>: one row per column
  of the table, and no row for an unknown table.
\<close>

definition pragma_row :: "nat \<times> sq_column \<Rightarrow> sqlval list" where
  "pragma_row ic =
     (case ic of
        (i, c) \<Rightarrow>
          [SInteger (int i), SText (col_name c), SText (col_type c),
           SInteger (if col_notnull c then 1 else 0), col_dflt c, SInteger (int (col_pk c))])"

definition run_pragma :: "database \<Rightarrow> string list \<Rightarrow> error + sql_rows" where
  "run_pragma d ts =
     (case ts of
        [w] \<Rightarrow>
          (case strip_prefix ''table_info('' w of
             None \<Rightarrow> Inl ''syntax error''
           | Some rest \<Rightarrow>
               (case strip_suffix '')'' rest of
                  None \<Rightarrow> Inl ''syntax error''
                | Some t \<Rightarrow>
                    Inr (result_set [''cid'', ''name'', ''type'', ''notnull'', ''dflt_value'', ''pk'']
                           (case find_table d t of
                              None \<Rightarrow> []
                            | Some tbl \<Rightarrow>
                                map pragma_row
                                  (zip [0..<length (obj_columns tbl)] (obj_columns tbl))))))
      | _ \<Rightarrow> Inl ''syntax error'')"

definition sqlite_Query :: "database \<Rightarrow> string \<Rightarrow> goval list \<Rightarrow> error + sql_rows" where
  "sqlite_Query d query args =
     (let ts = sql_words query
      in case bind_values args of
           None \<Rightarrow> Inl ''unsupported argument type''
         | Some vals \<Rightarrow>
             if take 3 ts = [''SELECT'', ''*'', ''FROM''] then run_select d (drop 3 ts) vals
             else if vals \<noteq> [] then Inl ''wrong number of arguments''
             else if take 3 ts = [''SELECT'', ''COUNT(*)'', ''FROM''] then run_count d (drop 3 ts)
             else if take 10 ts = master_words then run_master d (drop 10 ts)
             else if take 1 ts = [''PRAGMA''] then run_pragma d (drop 1 ts)
             else Inl ''syntax error'')"

text \<open>
  \<^verbatim>\<open>db.QueryRow(query).Scan(&n)\<close> of \<^verbatim>\<open>database/sql\<close>: the first row of the query,
  which must have one value, scanned into an \<^verbatim>\<open>int\<close>.
\<close>

definition QueryRow_Scan :: "(string \<Rightarrow> goval list \<Rightarrow> error + sql_rows) \<Rightarrow> string \<Rightarrow> error + int" where
  "QueryRow_Scan qf query =
     (case qf query [] of
        Inl err \<Rightarrow> Inl err
      | Inr rows \<Rightarrow>
          (case rows_items rows of
             [] \<Rightarrow> (case rows_Err rows of
                      None \<Rightarrow> Inl ''sql: no rows in result set''
                    | Some err \<Rightarrow> Inl err)
           | item # items \<Rightarrow>
               (case item of
                  Inl err \<Rightarrow> Inl err
                | Inr vals \<Rightarrow>
                    (case vals of
                       [v] \<Rightarrow> scan_int v
                     | _ \<Rightarrow> Inl (''sql: expected '' @ itoa (int (length vals))
                                  @ '' destination arguments in Scan, not 1'')))))"

definition sqlite3 :: "database \<Rightarrow> sql_DB" where
  "sqlite3 d =
     \<lparr>db_Query = sqlite_Query d, db_QueryRow_Scan = QueryRow_Scan (sqlite_Query d)\<rparr>"

subsection \<open>The database of the scenarios\<close>

text \<open>
  The table \<^verbatim>\<open>users(id INTEGER PRIMARY KEY, name TEXT, age INTEGER)\<close> with the rows
  \<^verbatim>\<open>(1, "Ann", 30)\<close> and \<^verbatim>\<open>(2, "Bo", 41)\<close>.
\<close>

definition users_table :: sq_object where
  "users_table =
     \<lparr>obj_type = ''table'', obj_name = ''users'',
      obj_columns =
        [\<lparr>col_name = ''id'', col_type = ''INTEGER'', col_notnull = False, col_dflt = SNull,
          col_pk = 1\<rparr>,
         \<lparr>col_name = ''name'', col_type = ''TEXT'', col_notnull = False, col_dflt = SNull,
          col_pk = 0\<rparr>,
         \<lparr>col_name = ''age'', col_type = ''INTEGER'', col_notnull = False, col_dflt = SNull,
          col_pk = 0\<rparr>],
      obj_rows =
        [[SInteger 1, SText ''Ann'', SInteger 30],
         [SInteger 2, SText ''Bo'', SInteger 41]]\<rparr>"

definition users_db :: database where
  "users_db = [users_table]"

definition no_auth :: Config where
  "no_auth = \<lparr>DBPath = ''users.db'', Port = 8080, Host = ''0.0.0.0'', Mode = ''release'',
              Username = [], Password = []\<rparr>"

definition users_catalog :: "TableInfo list" where
  "users_catalog =
     [\<lparr>ti_Name = ''users'',
       ti_Columns =
         [\<lparr>ci_Name = ''id'', ci_Type = ''INTEGER'', ci_NotNull = False, ci_PrimaryKey = True\<rparr>,
          \<lparr>ci_Name = ''name'', ci_Type = ''TEXT'', ci_NotNull = False, ci_PrimaryKey = False\<rparr>,
          \<lparr>ci_Name = ''age'', ci_Type = ''INTEGER'', ci_NotNull = False,
           ci_PrimaryKey = False\<rparr>]\<rparr>]"

definition users_server :: APIServer where
  "users_server = \<lparr>db = sqlite3 users_db, config = no_auth, tables = users_catalog\<rparr>"

section \<open>Notions used in the statements\<close>


text \<open>
  A second database: \<^verbatim>\<open>codes(code TEXT PRIMARY KEY, id INTEGER)\<close>, where \<^verbatim>\<open>id\<close> is not
  the key and repeats.
\<close>

definition codes_table :: sq_object where
  "codes_table =
     \<lparr>obj_type = ''table'', obj_name = ''codes'',
      obj_columns =
        [\<lparr>col_name = ''code'', col_type = ''TEXT'', col_notnull = False, col_dflt = SNull,
          col_pk = 1\<rparr>,
         \<lparr>col_name = ''id'', col_type = ''INTEGER'', col_notnull = False, col_dflt = SNull,
          col_pk = 0\<rparr>],
      obj_rows =
        [[SText ''c'', SInteger 8], [SText ''a'', SInteger 7], [SText ''b'', SInteger 7]]\<rparr>"

definition codes_server :: APIServer where
  "codes_server =
     \<lparr>db = sqlite3 [codes_table], config = no_auth,
      tables =
        [\<lparr>ti_Name = ''codes'',
          ti_Columns =
            [\<lparr>ci_Name = ''code'', ci_Type = ''TEXT'', ci_NotNull = False, ci_PrimaryKey = True\<rparr>,
             \<lparr>ci_Name = ''id'', ci_Type = ''INTEGER'', ci_NotNull = False,
              ci_PrimaryKey = False\<rparr>]\<rparr>]\<rparr>"



text \<open>
  A fourth database: the users table next to the internal table \<^verbatim>\<open>sqlite_sequence\<close> and
  an index.
\<close>

definition seq_db :: database where
  "seq_db =
     [users_table,
      \<lparr>obj_type = ''table'', obj_name = ''sqlite_sequence'',
       obj_columns =
         [\<lparr>col_name = ''name'', col_type = [], col_notnull = False, col_dflt = SNull,
           col_pk = 0\<rparr>,
          \<lparr>col_name = ''seq'', col_type = [], col_notnull = False, col_dflt = SNull,
           col_pk = 0\<rparr>],
       obj_rows = [[SText ''users'', SInteger 2]]\<rparr>,
      \<lparr>obj_type = ''index'', obj_name = ''users_by_name'', obj_columns = [], obj_rows = []\<rparr>]"

definition seq_server :: APIServer where
  "seq_server = \<lparr>db = sqlite3 seq_db, config = no_auth, tables = users_catalog\<rparr>"

text \<open>The tables that the catalog query selects.\<close>

definition user_tables :: "database \<Rightarrow> sq_object list" where
  "user_tables d =
     filter (\<lambda>ob. obj_type ob = ''table'' \<and> \<not> like_match ''sqlite_%'' (obj_name ob)) d"



section \<open>The query of the list handler\<close>










section \<open>Engine errors\<close>






section \<open>No rows\<close>

lemma scanLoop_None:
  "scanLoop columns items acc = Inr results \<Longrightarrow> results = None \<longleftrightarrow> acc = None \<and> items = []"
proof (induction items arbitrary: acc)
  case Nil
  then show ?case by auto
next
  case (Cons item items)
  then show ?case
    by (cases acc) (auto split: sum.splits)
qed

lemma handleTableQuery_page:
  assumes "db_QueryRow_Scan (db s) (countQuery tableName) = Inr n"
    and "db_Query (db s) (fst (listQuery tableName q)) (snd (listQuery tableName q)) = Inr rows"
    and "rows_Columns rows = Inr columns"
  shows "snd (handleTableQuery s tableName q) =
     (case scanLoop columns (rows_items rows) None of
        Inl err \<Rightarrow> Response StatusInternalServerError (H_error err)
      | Inr results \<Rightarrow> Response StatusOK (H_page n (pageOffset q) (pageLimit q) results))"
  using assms
  by (simp add: handleTableQuery_def Let_def case_prod_beta split: sum.split)

text \<open>
  Claim C10. When the paginated query delivers no row, the response has status 200 and its
  \<^verbatim>\<open>data\<close> is the nil slice, rendered as JSON \<^verbatim>\<open>null\<close>, next to the members
  \<^verbatim>\<open>total\<close>, \<^verbatim>\<open>limit\<close> and \<^verbatim>\<open>offset\<close>; with at least one row the slice is not nil.
\<close>

theorem C10_no_rows_null:
  assumes "db_QueryRow_Scan (db s) (countQuery tableName) = Inr n"
    and "db_Query (db s) (fst (listQuery tableName q)) (snd (listQuery tableName q)) = Inr rows"
    and "rows_Columns rows = Inr columns"
  shows "(rows_items rows = [] \<longrightarrow>
          snd (handleTableQuery s tableName q) =
            Response StatusOK (H_page n (pageOffset q) (pageLimit q) None)
          \<and> json_members (H_page n (pageOffset q) (pageLimit q) None) =
              [(''data'', JNull), (''limit'', JNumber), (''offset'', JNumber),
               (''total'', JNumber)])
    \<and> (rows_items rows \<noteq> [] \<longrightarrow>
          snd (handleTableQuery s tableName q) \<noteq>
            Response StatusOK (H_page n (pageOffset q) (pageLimit q) None))"
proof (intro conjI impI)
  assume "rows_items rows = []"
  then show "snd (handleTableQuery s tableName q) =
            Response StatusOK (H_page n (pageOffset q) (pageLimit q) None)"
    by (simp add: handleTableQuery_page [OF assms])
next
  show "json_members (H_page n (pageOffset q) (pageLimit q) None) =
      [(''data'', JNull), (''limit'', JNumber), (''offset'', JNumber), (''total'', JNumber)]"
    by simp
next
  assume ne: "rows_items rows \<noteq> []"
  show "snd (handleTableQuery s tableName q) \<noteq>
            Response StatusOK (H_page n (pageOffset q) (pageLimit q) None)"
  proof (cases "scanLoop columns (rows_items rows) None")
    case (Inl err)
    then show ?thesis
      by (simp add: handleTableQuery_page [OF assms] StatusOK_def StatusInternalServerError_def)
  next
    case (Inr results)
    with ne scanLoop_None [OF Inr] have "results \<noteq> None" by simp
    with Inr show ?thesis
      by (simp add: handleTableQuery_page [OF assms])
  qed
qed


theorem C10_no_rows_null_witness:
  "db_QueryRow_Scan (db users_server) (countQuery ''users'') = Inr 2
   \<and> rows_items (projr (db_Query (db users_server)
         (fst (listQuery ''users'' [(''age'', ''99'', [])]))
         (snd (listQuery ''users'' [(''age'', ''99'', [])])))) = []
   \<and> snd (handleTableQuery users_server ''users'' [(''age'', ''99'', [])]) =
       Response StatusOK (H_page 2 0 100 None)
   \<and> json_members (H_page 2 0 100 None) =
       [(''data'', JNull), (''limit'', JNumber), (''offset'', JNumber), (''total'', JNumber)]
   \<and> snd (handleTableQuery users_server ''users'' [(''age'', ''41'', [])]) \<noteq>
       Response StatusOK (H_page 2 0 100 None)"
proof -
  let ?q = "[(''age'', ''99'', [])]"
  let ?q' = "[(''age'', ''41'', [])]"
  let ?cols = "[''id'', ''name'', ''age'']"
  let ?rows = "\<lparr>rows_Columns = Inr ?cols, rows_items = [], rows_Err = None\<rparr>"
  let ?rows' = "\<lparr>rows_Columns = Inr ?cols,
      rows_items = [Inr [GInt 2, GString ''Bo'', GInt 41]], rows_Err = None\<rparr>"
  have cnt: "db_QueryRow_Scan (db users_server) (countQuery ''users'') = Inr 2"
    by code_simp
  have qry: "db_Query (db users_server) (fst (listQuery ''users'' ?q)) (snd (listQuery ''users'' ?q))
      = Inr ?rows"
    by code_simp
  have qry': "db_Query (db users_server) (fst (listQuery ''users'' ?q'))
      (snd (listQuery ''users'' ?q')) = Inr ?rows'"
    by code_simp
  have lim: "pageLimit ?q = 100" "pageOffset ?q = 0" "pageLimit ?q' = 100" "pageOffset ?q' = 0"
    by code_simp+
  have a: "snd (handleTableQuery users_server ''users'' ?q) =
       Response StatusOK (H_page 2 0 100 None)
     \<and> json_members (H_page 2 0 100 None) =
       [(''data'', JNull), (''limit'', JNumber), (''offset'', JNumber), (''total'', JNumber)]"
    using C10_no_rows_null [OF cnt qry, of ?cols] unfolding lim by simp
  have b: "snd (handleTableQuery users_server ''users'' ?q') \<noteq>
       Response StatusOK (H_page 2 0 100 None)"
    using C10_no_rows_null [OF cnt qry', of ?cols] unfolding lim by simp
  have c: "rows_items (projr (db_Query (db users_server)
         (fst (listQuery ''users'' ?q)) (snd (listQuery ''users'' ?q)))) = []"
    unfolding qry by simp
  from cnt a b c show ?thesis by (intro conjI) simp_all
qed

section \<open>Single record\<close>

lemma handleRecordQuery_calls:
  "fst (handleRecordQuery s tableName id') =
     [Query (''SELECT * FROM '' @ tableName @ '' WHERE id = ?'') [GString id']]"
  by (simp add: handleRecordQuery_def recordQuery_def Let_def
      split: sum.split list.split)

lemma handleRecordQuery_tables:
  "handleRecordQuery (s\<lparr>tables := ts\<rparr>) tableName id' = handleRecordQuery s tableName id'"
  by (simp add: handleRecordQuery_def)

lemma handleRecordQuery_not_found:
  "db_Query (db s) (recordQuery tableName) [GString id'] = Inr rows \<Longrightarrow>
   rows_Columns rows = Inr columns \<Longrightarrow> rows_items rows = [] \<Longrightarrow>
   snd (handleRecordQuery s tableName id') = Response StatusNotFound (H_error ''Record not found'')"
  by (simp add: handleRecordQuery_def Let_def)

lemma handleRecordQuery_found:
  "db_Query (db s) (recordQuery tableName) [GString id'] = Inr rows \<Longrightarrow>
   rows_Columns rows = Inr columns \<Longrightarrow> rows_items rows = Inr vals # rest \<Longrightarrow>
   length vals = length columns \<Longrightarrow>
   snd (handleRecordQuery s tableName id') = Response StatusOK (H_record (decodeRow columns vals))"
  by (simp add: handleRecordQuery_def Let_def rows_Scan_def)

text \<open>
  Claim C4. The single-record handler makes one query, \<^verbatim>\<open>SELECT * FROM <table> WHERE id = ?\<close>
  with the path value as its argument, whatever the catalog says about the table. When the
  query delivers no row the response is 404 with \<^verbatim>\<open>Record not found\<close>; otherwise the
  first row is decoded and returned with status 200.
\<close>

theorem C4_record_lookup:
  "fst (handleRecordQuery s tableName id') =
     [Query (''SELECT * FROM '' @ tableName @ '' WHERE id = ?'') [GString id']]
   \<and> handleRecordQuery (s\<lparr>tables := ts\<rparr>) tableName id' = handleRecordQuery s tableName id'
   \<and> (db_Query (db s) (recordQuery tableName) [GString id'] = Inr rows
       \<and> rows_Columns rows = Inr columns \<and> rows_items rows = []
      \<longrightarrow> snd (handleRecordQuery s tableName id') =
            Response StatusNotFound (H_error ''Record not found''))
   \<and> (db_Query (db s) (recordQuery tableName) [GString id'] = Inr rows
       \<and> rows_Columns rows = Inr columns \<and> rows_items rows = Inr vals # rest
       \<and> length vals = length columns
      \<longrightarrow> snd (handleRecordQuery s tableName id') =
            Response StatusOK (H_record (decodeRow columns vals)))"
  using handleRecordQuery_calls handleRecordQuery_tables handleRecordQuery_not_found
    handleRecordQuery_found
  by blast

theorem C4_record_lookup_witness:
  "handleRecordQuery users_server ''users'' ''1'' =
     ([Query ''SELECT * FROM users WHERE id = ?'' [GString ''1'']],
      Response 200 (H_record [(''id'', GInt 1), (''name'', GString ''Ann''), (''age'', GInt 30)]))
   \<and> handleRecordQuery users_server ''users'' ''999'' =
     ([Query ''SELECT * FROM users WHERE id = ?'' [GString ''999'']],
      Response 404 (H_error ''Record not found''))
   \<and> handleRecordQuery codes_server ''codes'' ''7'' =
     ([Query ''SELECT * FROM codes WHERE id = ?'' [GString ''7'']],
      Response 200 (H_record [(''code'', GString ''a''), (''id'', GInt 7)]))
   \<and> snd (handleRecordQuery codes_server ''codes'' ''a'') =
      Response 404 (H_error ''Record not found'')"
proof -
  let ?ucols = "[''id'', ''name'', ''age'']"
  let ?ccols = "[''code'', ''id'']"
  have q1: "db_Query (db users_server) (recordQuery ''users'') [GString ''1''] =
      Inr \<lparr>rows_Columns = Inr ?ucols,
           rows_items = [Inr [GInt 1, GString ''Ann'', GInt 30]], rows_Err = None\<rparr>"
    by code_simp
  have q2: "db_Query (db users_server) (recordQuery ''users'') [GString ''999''] =
      Inr \<lparr>rows_Columns = Inr ?ucols, rows_items = [], rows_Err = None\<rparr>"
    by code_simp
  have q3: "db_Query (db codes_server) (recordQuery ''codes'') [GString ''7''] =
      Inr \<lparr>rows_Columns = Inr ?ccols,
           rows_items = [Inr [GString ''a'', GInt 7], Inr [GString ''b'', GInt 7]],
           rows_Err = None\<rparr>"
    by code_simp
  have q4: "db_Query (db codes_server) (recordQuery ''codes'') [GString ''a''] =
      Inr \<lparr>rows_Columns = Inr ?ccols, rows_items = [], rows_Err = None\<rparr>"
    by code_simp
  have d1: "decodeRow ?ucols [GInt 1, GString ''Ann'', GInt 30] =
      [(''id'', GInt 1), (''name'', GString ''Ann''), (''age'', GInt 30)]"
    by code_simp
  have d3: "decodeRow ?ccols [GString ''a'', GInt 7] = [(''code'', GString ''a''), (''id'', GInt 7)]"
    by code_simp
  note c1 = C4_record_lookup [where s = users_server and tableName = "''users''"
      and id' = "''1''" and columns = ?ucols and vals = "[GInt 1, GString ''Ann'', GInt 30]"
      and rest = "[]" and ts = "[]"
      and rows = "\<lparr>rows_Columns = Inr ?ucols,
           rows_items = [Inr [GInt 1, GString ''Ann'', GInt 30]], rows_Err = None\<rparr>"]
  note c2 = C4_record_lookup [where s = users_server and tableName = "''users''"
      and id' = "''999''" and columns = ?ucols and ts = "[]"
      and rows = "\<lparr>rows_Columns = Inr ?ucols, rows_items = [], rows_Err = None\<rparr>"]
  note c3 = C4_record_lookup [where s = codes_server and tableName = "''codes''"
      and id' = "''7''" and columns = ?ccols and vals = "[GString ''a'', GInt 7]"
      and rest = "[Inr [GString ''b'', GInt 7]]" and ts = "[]"
      and rows = "\<lparr>rows_Columns = Inr ?ccols,
           rows_items = [Inr [GString ''a'', GInt 7], Inr [GString ''b'', GInt 7]],
           rows_Err = None\<rparr>"]
  note c4 = C4_record_lookup [where s = codes_server and tableName = "''codes''"
      and id' = "''a''" and columns = ?ccols and ts = "[]"
      and rows = "\<lparr>rows_Columns = Inr ?ccols, rows_items = [], rows_Err = None\<rparr>"]
  have r1: "handleRecordQuery users_server ''users'' ''1'' =
     ([Query (''SELECT * FROM '' @ ''users'' @ '' WHERE id = ?'') [GString ''1'']],
      Response StatusOK (H_record (decodeRow ?ucols [GInt 1, GString ''Ann'', GInt 30])))"
    using c1 q1 by (simp add: prod_eq_iff)
  have r2: "handleRecordQuery users_server ''users'' ''999'' =
     ([Query (''SELECT * FROM '' @ ''users'' @ '' WHERE id = ?'') [GString ''999'']],
      Response StatusNotFound (H_error ''Record not found''))"
    using c2 q2 by (simp add: prod_eq_iff)
  have r3: "handleRecordQuery codes_server ''codes'' ''7'' =
     ([Query (''SELECT * FROM '' @ ''codes'' @ '' WHERE id = ?'') [GString ''7'']],
      Response StatusOK (H_record (decodeRow ?ccols [GString ''a'', GInt 7])))"
    using c3 q3 by (simp add: prod_eq_iff)
  have r4: "snd (handleRecordQuery codes_server ''codes'' ''a'') =
      Response StatusNotFound (H_error ''Record not found'')"
    using c4 q4 by simp
  show ?thesis
    unfolding r1 r2 r3 r4 d1 d3 by (simp add: StatusOK_def StatusNotFound_def)
qed

section \<open>The info route\<close>

lemma endpointsLoop_eq:
  "endpointsLoop ts endpoints =
     endpoints @ concat (map (\<lambda>table. [''GET /'' @ ti_Name table,
                                         ''GET /'' @ ti_Name table @ ''/:id'']) ts)"
  by (induction ts arbitrary: endpoints) simp_all

lemma endpointsLoop_length:
  "length (endpointsLoop ts endpoints) = length endpoints + 2 * length ts"
  by (induction ts arbitrary: endpoints) simp_all

lemma serve_server: "fst (serve s r) = s"
  by (simp add: serve_def split: option.split path.split)

lemma serveAll_server: "serveAll s rs = s"
  by (induction rs arbitrary: s) (simp_all add: serve_server)

text \<open>
  Claim C9. The info handler answers with status 200, the whole catalog and, for every table
  in catalog order, the two strings \<^verbatim>\<open>GET /<table>\<close> and \<^verbatim>\<open>GET /<table>/:id\<close>; it makes
  no call on the database, and serving a request leaves the server value as it was.
\<close>

theorem C9_info:
  "handleAPIInfo s =
     ([], Response StatusOK
            (H_info (tables s)
               (concat (map (\<lambda>table. [''GET /'' @ ti_Name table,
                                        ''GET /'' @ ti_Name table @ ''/:id'']) (tables s)))))
   \<and> length (endpointsLoop (tables s) []) = 2 * length (tables s)
   \<and> fst (serve s r) = s"
proof (intro conjI)
  show "handleAPIInfo s =
     ([], Response StatusOK
            (H_info (tables s)
               (concat (map (\<lambda>table. [''GET /'' @ ti_Name table,
                                        ''GET /'' @ ti_Name table @ ''/:id'']) (tables s)))))"
    by (simp add: handleAPIInfo_def endpointsLoop_eq)
  show "length (endpointsLoop (tables s) []) = 2 * length (tables s)"
    by (simp add: endpointsLoop_length)
  show "fst (serve s r) = s"
    by (rule serve_server)
qed

theorem C9_info_witness:
  "NewAPIServer no_auth (sqlite3 users_db) = Inr users_server
   \<and> map (\<lambda>table. (ti_Name table, map ci_Name (ti_Columns table))) (tables users_server) =
       [(''users'', [''id'', ''name'', ''age''])]
   \<and> handleAPIInfo users_server =
       ([], Response 200 (H_info users_catalog [''GET /users'', ''GET /users/:id'']))
   \<and> serve users_server \<lparr>req_path = Root, req_query = [], req_auth = None\<rparr> =
       (users_server, [],
        Response 200 (H_info users_catalog [''GET /users'', ''GET /users/:id'']))"
proof -
  let ?r = "\<lparr>req_path = Root, req_query = [], req_auth = None\<rparr>"
  have m: "db_Query (sqlite3 users_db) masterQuery [] =
      Inr \<lparr>rows_Columns = Inr [''name''], rows_items = [Inr [GString ''users'']],
           rows_Err = None\<rparr>"
    by code_simp
  have p: "db_Query (sqlite3 users_db) ''PRAGMA table_info(users)'' [] =
      Inr \<lparr>rows_Columns = Inr [''cid'', ''name'', ''type'', ''notnull'', ''dflt_value'', ''pk''],
           rows_items =
             [Inr [GInt 0, GString ''id'', GString ''INTEGER'', GInt 0, GNil, GInt 1],
              Inr [GInt 1, GString ''name'', GString ''TEXT'', GInt 0, GNil, GInt 0],
              Inr [GInt 2, GString ''age'', GString ''INTEGER'', GInt 0, GNil, GInt 0]],
           rows_Err = None\<rparr>"
    by code_simp
  have new: "NewAPIServer no_auth (sqlite3 users_db) = Inr users_server"
    by (simp add: NewAPIServer_def loadTableInfo_def m p scanTableName_def scanColumn_def
        users_server_def users_catalog_def)
  have cat: "map (\<lambda>table. (ti_Name table, map ci_Name (ti_Columns table))) (tables users_server) =
       [(''users'', [''id'', ''name'', ''age''])]"
    by (simp add: users_server_def users_catalog_def)
  have tabs: "tables users_server = users_catalog"
    by (simp add: users_server_def)
  have eps: "concat (map (\<lambda>table. [''GET /'' @ ti_Name table,
                                  ''GET /'' @ ti_Name table @ ''/:id'']) users_catalog) =
     [''GET /users'', ''GET /users/:id'']"
    by (simp add: users_catalog_def)
  note c9 = C9_info [of users_server ?r]
  from c9 have info: "handleAPIInfo users_server =
       ([], Response 200 (H_info users_catalog [''GET /users'', ''GET /users/:id'']))"
    unfolding tabs eps by (simp add: StatusOK_def)
  have auth: "authMiddleware users_server None = None"
    by (simp add: authMiddleware_def users_server_def no_auth_def)
  have "serve users_server ?r = (users_server, handleAPIInfo users_server)"
    by (simp add: serve_def auth)
  with info have srv: "serve users_server ?r =
       (users_server, [],
        Response 200 (H_info users_catalog [''GET /users'', ''GET /users/:id'']))"
    by simp
  from new cat info srv show ?thesis by (intro conjI)
qed

section \<open>Row decoding\<close>










section \<open>Numbers in a statement\<close>






section \<open>Decimal numbers are accepted\<close>





section \<open>Pagination parameters\<close>


















section \<open>Words of the statements\<close>

lemma split_space_not_Nil: "split_space t \<noteq> []"
  by (induction t) (auto split: list.split)

lemma split_space_append:
  "is_space c \<Longrightarrow> split_space (a @ c # b) = split_space a @ split_space b"
proof (induction a)
  case Nil
  then show ?case by simp
next
  case (Cons x a)
  then show ?case
    using split_space_not_Nil [of a] by (cases "split_space a") auto
qed

lemma sql_words_append:
  "is_space c \<Longrightarrow> sql_words (a @ c # b) = sql_words a @ sql_words b"
  by (simp add: sql_words_def split_space_append)

lemma sql_words_space: "sql_words (a @ CHR '' '' # b) = sql_words a @ sql_words b"
  by (rule sql_words_append) (simp add: is_space_def)

lemma sql_words_Cons_space: "sql_words (CHR '' '' # b) = sql_words b"
  using sql_words_space [of "[]" b] by (simp add: sql_words_def)

lemma sql_words_keywords:
  "sql_words ''SELECT'' = [''SELECT'']" "sql_words ''COUNT(*)'' = [''COUNT(*)'']"
  "sql_words ''FROM'' = [''FROM'']" "sql_words ''*'' = [''*'']"
  "sql_words ''WHERE'' = [''WHERE'']" "sql_words ''ORDER'' = [''ORDER'']"
  "sql_words ''BY'' = [''BY'']" "sql_words ''LIMIT'' = [''LIMIT'']"
  "sql_words ''OFFSET'' = [''OFFSET'']" "sql_words ''AND'' = [''AND'']"
  "sql_words ''='' = [''='']" "sql_words ''?'' = [''?'']" "sql_words ''id'' = [''id'']"
  by code_simp+

lemma sql_words_countQuery:
  "sql_words (countQuery tableName) = ''SELECT'' # ''COUNT(*)'' # ''FROM'' # sql_words tableName"
proof -
  have "countQuery tableName =
      ''SELECT'' @ CHR '' '' # (''COUNT(*)'' @ CHR '' '' # (''FROM'' @ CHR '' '' # tableName))"
    by (simp add: countQuery_def)
  then show ?thesis
    by (simp only: sql_words_space sql_words_keywords) simp
qed

lemma bind_values_Nil: "bind_values [] = Some []"
  by simp

lemma sqlite_count:
  assumes "find_table d tableName = Some tbl" and "sql_words tableName = [tableName]"
  shows "sqlite_Query d (countQuery tableName) [] =
     Inr (result_set [''COUNT(*)''] [[SInteger (int (length (obj_rows tbl)))]])"
  by (simp add: sqlite_Query_def sql_words_countQuery assms run_count_def)

lemma sqlite_count_scan:
  assumes "find_table d tableName = Some tbl" and "sql_words tableName = [tableName]"
  shows "db_QueryRow_Scan (sqlite3 d) (countQuery tableName) = Inr (int (length (obj_rows tbl)))"
  by (simp add: sqlite3_def QueryRow_Scan_def sqlite_count [OF assms] result_set_def cell_def)

lemma handleTableQuery_total:
  assumes "db_QueryRow_Scan (db s) (countQuery tableName) = Inr n"
    and "snd (handleTableQuery s tableName q) = Response status (H_page total' offset limit results)"
  shows "total' = n"
  using assms
  by (auto simp: handleTableQuery_def Let_def case_prod_beta split: sum.splits)

text \<open>
  Claim C1, as amended. On a table of the database whose name is one word, the count query
  returns the number of all rows of the table, and this number is the \<^verbatim>\<open>total\<close> of every
  page the list handler returns, whatever filters and pagination parameters the request
  has.
\<close>

theorem C1_total_counts_table:
  assumes "find_table d tableName = Some tbl" and "sql_words tableName = [tableName]"
  shows "db_QueryRow_Scan (sqlite3 d) (countQuery tableName) = Inr (int (length (obj_rows tbl)))
    \<and> (\<forall>status total' offset limit results.
          snd (handleTableQuery \<lparr>db = sqlite3 d, config = cfg, tables = ts\<rparr> tableName q) =
            Response status (H_page total' offset limit results)
          \<longrightarrow> total' = int (length (obj_rows tbl)))"
proof (intro conjI allI impI)
  show c: "db_QueryRow_Scan (sqlite3 d) (countQuery tableName) = Inr (int (length (obj_rows tbl)))"
    using assms by (rule sqlite_count_scan)
  fix status total' offset limit results
  assume "snd (handleTableQuery \<lparr>db = sqlite3 d, config = cfg, tables = ts\<rparr> tableName q) =
            Response status (H_page total' offset limit results)"
  with c show "total' = int (length (obj_rows tbl))"
    by (intro handleTableQuery_total [where s = "\<lparr>db = sqlite3 d, config = cfg, tables = ts\<rparr>"]) simp_all
qed

theorem C1_total_counts_table_witness:
  "find_table users_db ''users'' = Some users_table \<and> sql_words ''users'' = [''users'']
   \<and> length (obj_rows users_table) = 2
   \<and> db_QueryRow_Scan (sqlite3 users_db) (countQuery ''users'') = Inr 2
   \<and> snd (handleTableQuery users_server ''users'' [(''age'', ''41'', [])]) =
       Response 200
         (H_page 2 0 100 (Some [[(''id'', GInt 2), (''name'', GString ''Bo''), (''age'', GInt 41)]]))
   \<and> snd (handleTableQuery users_server ''users'' [(''name'', ''Ann'', []), (''limit'', ''1'', [])]) =
       Response 200
         (H_page 2 0 1 (Some [[(''id'', GInt 1), (''name'', GString ''Ann''), (''age'', GInt 30)]]))"
proof -
  let ?q = "[(''age'', ''41'', [])]"
  let ?q' = "[(''name'', ''Ann'', []), (''limit'', ''1'', [])]"
  have f: "find_table users_db ''users'' = Some users_table"
    by (simp add: find_table_def users_db_def users_table_def same_name_def)
  have w: "sql_words ''users'' = [''users'']"
    by code_simp
  have l: "length (obj_rows users_table) = 2"
    by (simp add: users_table_def)
  note c1 = C1_total_counts_table [OF f w, of no_auth users_catalog ?q]
  from c1 l have cnt: "db_QueryRow_Scan (sqlite3 users_db) (countQuery ''users'') = Inr 2"
    by simp
  have page: "snd (handleTableQuery users_server ''users'' ?q) =
       Response 200
         (H_page 2 0 100 (Some [[(''id'', GInt 2), (''name'', GString ''Bo''), (''age'', GInt 41)]]))"
    by code_simp
  have page': "snd (handleTableQuery users_server ''users'' ?q') =
       Response 200
         (H_page 2 0 1 (Some [[(''id'', GInt 1), (''name'', GString ''Ann''), (''age'', GInt 30)]]))"
    by code_simp
  from f w l cnt page page' show ?thesis by (intro conjI)
qed

text \<open>
  The claim as first stated fails: filtering the users table by \<^verbatim>\<open>age=41\<close> leaves one
  record, and the \<^verbatim>\<open>total\<close> of the response is 2, not 1.
\<close>

theorem C1_filtered_total_counterexample:
  "snd (handleTableQuery users_server ''users'' [(''age'', ''41'', [])]) =
     Response 200
       (H_page 2 0 100 (Some [[(''id'', GInt 2), (''name'', GString ''Bo''), (''age'', GInt 41)]]))
   \<and> snd (handleTableQuery users_server ''users'' [(''age'', ''41'', [])]) \<noteq>
     Response 200
       (H_page 1 0 100 (Some [[(''id'', GInt 2), (''name'', GString ''Bo''), (''age'', GInt 41)]]))"
  by code_simp

section \<open>The catalog\<close>

lemma strip_prefix_Some: "strip_prefix p t = Some r \<longleftrightarrow> t = p @ r"
  by (induction p t rule: strip_prefix.induct) auto

lemma like_match_percent: "like_match [CHR ''%''] t"
  by (induction t) simp_all

lemma like_match_sqlite: "like_match ''sqlite_%'' (''sqlite_'' @ r)"
  by (simp add: like_match_percent)

lemma not_like_no_prefix:
  "\<not> like_match ''sqlite_%'' name \<Longrightarrow> strip_prefix ''sqlite_'' name = None"
proof (cases "strip_prefix ''sqlite_'' name")
  case None
  then show ?thesis .
next
  case (Some r)
  assume n: "\<not> like_match ''sqlite_%'' name"
  from Some have "name = ''sqlite_'' @ r"
    by (simp only: strip_prefix_Some)
  then have "like_match ''sqlite_%'' name"
    by (simp only: like_match_sqlite)
  with n show ?thesis by contradiction
qed

lemma sql_words_masterQuery:
  "sql_words masterQuery = master_words @ [CHR 0x27 # ''sqlite_%'' @ [CHR 0x27]]"
  by code_simp

lemma sqlite_master:
  "sqlite_Query d masterQuery [] =
     Inr (result_set [''name''] (map (\<lambda>ob. [SText (obj_name ob)]) (user_tables d)))"
proof -
  have t3: "take 3 (master_words @ [CHR 0x27 # ''sqlite_%'' @ [CHR 0x27]]) \<noteq> [''SELECT'', ''*'', ''FROM'']"
    "take 3 (master_words @ [CHR 0x27 # ''sqlite_%'' @ [CHR 0x27]]) \<noteq> [''SELECT'', ''COUNT(*)'', ''FROM'']"
    by (simp_all add: master_words_def)
  have t10: "take 10 (master_words @ [CHR 0x27 # ''sqlite_%'' @ [CHR 0x27]]) = master_words"
    "drop 10 (master_words @ [CHR 0x27 # ''sqlite_%'' @ [CHR 0x27]]) = [CHR 0x27 # ''sqlite_%'' @ [CHR 0x27]]"
    by (simp_all add: master_words_def)
  have pat: "strip_suffix [CHR 0x27] (''sqlite_%'' @ [CHR 0x27]) = Some ''sqlite_%''"
    by (simp add: strip_suffix_def)
  show ?thesis
    unfolding sqlite_Query_def sql_words_masterQuery Let_def
    by (simp only: bind_values.simps option.case t3 t10 if_False if_True simp_thms)
       (simp add: run_master_def strip_suffix_def user_tables_def)
qed

lemma master_items:
  "rows_items (result_set [''name''] (map (\<lambda>ob. [SText (obj_name ob)]) obs)) =
     map (\<lambda>ob. Inr [GString (obj_name ob)]) obs"
  by (simp add: result_set_def cell_def comp_def)

lemma tablesLoop_names:
  "tablesLoop e (map (\<lambda>ob. Inr [GString (obj_name ob)]) obs) ts = Inr ts' \<Longrightarrow>
   map ti_Name ts' = map ti_Name ts @ map obj_name obs"
proof (induction obs arbitrary: ts)
  case Nil
  then show ?case by simp
next
  case (Cons ob obs)
  from Cons.prems obtain cols where
    "tablesLoop e (map (\<lambda>ob. Inr [GString (obj_name ob)]) obs)
       (ts @ [\<lparr>ti_Name = obj_name ob, ti_Columns = cols\<rparr>]) = Inr ts'"
    by (auto simp: scanTableName_def split: sum.splits)
  from Cons.IH [OF this] show ?case by simp
qed

lemma loadTableInfo_names:
  assumes "loadTableInfo \<lparr>db = sqlite3 d, config = cfg, tables = ts\<rparr> = Inr s"
  shows "map ti_Name (tables s) = map ti_Name ts @ map obj_name (user_tables d)"
proof -
  from assms obtain ts' where
    l: "tablesLoop (sqlite3 d) (map (\<lambda>ob. Inr [GString (obj_name ob)]) (user_tables d)) ts = Inr ts'"
    and s: "s = \<lparr>db = sqlite3 d, config = cfg, tables = ts'\<rparr>"
    by (auto simp: loadTableInfo_def sqlite3_def sqlite_master master_items split: sum.splits)
  from tablesLoop_names [OF l] s show ?thesis by simp
qed

lemma NewAPIServer_names:
  assumes "NewAPIServer cfg (sqlite3 d) = Inr s"
  shows "map ti_Name (tables s) = map obj_name (user_tables d)"
proof -
  from assms have "loadTableInfo \<lparr>db = sqlite3 d, config = cfg, tables = []\<rparr> = Inr s"
    by (auto simp: NewAPIServer_def split: sum.splits)
  from loadTableInfo_names [OF this] show ?thesis by simp
qed

text \<open>
  Claim C8. The catalog that \<^verbatim>\<open>NewAPIServer\<close> loads from a database names exactly the
  tables whose names the pattern \<^verbatim>\<open>sqlite_%\<close> does not match, in the order of the schema
  table; so no name in it starts with \<^verbatim>\<open>sqlite_\<close>. Serving requests never changes the
  catalog, so this holds after any sequence of requests.
\<close>

theorem C8_no_internal_tables:
  assumes "NewAPIServer cfg (sqlite3 d) = Inr s"
  shows "map ti_Name (tables s) =
      map obj_name
        (filter (\<lambda>ob. obj_type ob = ''table'' \<and> \<not> like_match ''sqlite_%'' (obj_name ob)) d)
    \<and> tables (serveAll s rs) = tables s
    \<and> (\<forall>table \<in> set (tables (serveAll s rs)). strip_prefix ''sqlite_'' (ti_Name table) = None)"
proof (intro conjI ballI)
  show n: "map ti_Name (tables s) =
      map obj_name
        (filter (\<lambda>ob. obj_type ob = ''table'' \<and> \<not> like_match ''sqlite_%'' (obj_name ob)) d)"
    using NewAPIServer_names [OF assms] by (simp add: user_tables_def)
  show "tables (serveAll s rs) = tables s"
    by (simp add: serveAll_server)
  fix table
  assume "table \<in> set (tables (serveAll s rs))"
  then have "ti_Name table \<in> set (map ti_Name (tables s))"
    by (simp add: serveAll_server)
  then have "\<not> like_match ''sqlite_%'' (ti_Name table)"
    unfolding n by auto
  then show "strip_prefix ''sqlite_'' (ti_Name table) = None"
    by (rule not_like_no_prefix)
qed


theorem C8_no_internal_tables_witness:
  "NewAPIServer no_auth (sqlite3 seq_db) = Inr seq_server
   \<and> map ti_Name
        (tables (serveAll seq_server
           [\<lparr>req_path = TablePath ''users'', req_query = [], req_auth = None\<rparr>,
            \<lparr>req_path = TablePath ''sqlite_sequence'', req_query = [], req_auth = None\<rparr>])) =
       [''users'']
   \<and> strip_prefix ''sqlite_'' ''users'' = None
   \<and> strip_prefix ''sqlite_'' ''sqlite_sequence'' = Some ''sequence''
   \<and> snd (snd (serve seq_server
        \<lparr>req_path = TablePath ''sqlite_sequence'', req_query = [], req_auth = None\<rparr>)) =
       Response 404 (Plain ''404 page not found'')"
proof -
  let ?rs = "[\<lparr>req_path = TablePath ''users'', req_query = [], req_auth = None\<rparr>,
            \<lparr>req_path = TablePath ''sqlite_sequence'', req_query = [], req_auth = None\<rparr>]"
  have m: "db_Query (sqlite3 seq_db) masterQuery [] =
      Inr \<lparr>rows_Columns = Inr [''name''], rows_items = [Inr [GString ''users'']],
           rows_Err = None\<rparr>"
    by code_simp
  have p: "db_Query (sqlite3 seq_db) ''PRAGMA table_info(users)'' [] =
      Inr \<lparr>rows_Columns = Inr [''cid'', ''name'', ''type'', ''notnull'', ''dflt_value'', ''pk''],
           rows_items =
             [Inr [GInt 0, GString ''id'', GString ''INTEGER'', GInt 0, GNil, GInt 1],
              Inr [GInt 1, GString ''name'', GString ''TEXT'', GInt 0, GNil, GInt 0],
              Inr [GInt 2, GString ''age'', GString ''INTEGER'', GInt 0, GNil, GInt 0]],
           rows_Err = None\<rparr>"
    by code_simp
  have new: "NewAPIServer no_auth (sqlite3 seq_db) = Inr seq_server"
    by (simp add: NewAPIServer_def loadTableInfo_def m p scanTableName_def scanColumn_def
        seq_server_def users_catalog_def)
  note c8 = C8_no_internal_tables [OF new, of ?rs]
  have names: "map ti_Name (tables seq_server) = [''users'']"
    by (simp add: seq_server_def users_catalog_def)
  from c8 have "tables (serveAll seq_server ?rs) = tables seq_server"
    by blast
  with names have after: "map ti_Name (tables (serveAll seq_server ?rs)) = [''users'']"
    by simp
  have pre: "strip_prefix ''sqlite_'' ''users'' = None"
    "strip_prefix ''sqlite_'' ''sqlite_sequence'' = Some ''sequence''"
    by simp_all
  have auth: "authMiddleware seq_server None = None"
    by (simp add: authMiddleware_def seq_server_def no_auth_def)
  have nf: "snd (snd (serve seq_server
        \<lparr>req_path = TablePath ''sqlite_sequence'', req_query = [], req_auth = None\<rparr>)) =
       Response 404 (Plain ''404 page not found'')"
    by (simp add: serve_def auth routed_def names StatusNotFound_def)
  from new after pre nf show ?thesis by (intro conjI)
qed

section \<open>The order of the engine\<close>











section \<open>The ordered query\<close>

















end
